theory Spec2Isabelle
  imports Complex_Main "HOL-Library.Sublist" "HOL-Library.Multiset"
begin

section \<open>Strings and Python's \<open>str.replace\<close>\<close>

text \<open>
  The notebook cleans comments with Python's \<^verbatim>\<open>str.replace(old, new)\<close>: the string is
  scanned from the left, every non-overlapping occurrence of the literal \<open>old\<close> is replaced
  by \<open>new\<close>, and the scan resumes right after the replaced occurrence. For an empty
  \<open>old\<close> Python inserts \<open>new\<close> before every character and at the end.
\<close>

abbreviation (input) bsl :: char where "bsl \<equiv> CHR 0x5C"
abbreviation (input) squote :: char where "squote \<equiv> CHR 0x27"
abbreviation (input) dquote :: char where "dquote \<equiv> CHR 0x22"

fun str_replace :: "string \<Rightarrow> string \<Rightarrow> string \<Rightarrow> string" where
  "str_replace old new [] = (if old = [] then new else [])"
| "str_replace old new (c # cs) =
     (if old = [] then new @ c # str_replace old new cs
      else if prefix old (c # cs)
           then new @ str_replace old new (drop (length old) (c # cs))
           else c # str_replace old new cs)"

text \<open>\<^verbatim>\<open>Series.apply(f)\<close> on a column of strings: \<open>f\<close> on every entry, in order.\<close>

definition series_apply :: "('a \<Rightarrow> 'b) \<Rightarrow> 'a list \<Rightarrow> 'b list" where
  "series_apply f col = map f col"

section \<open>Comment cleaning (cells 9 and 24)\<close>

text \<open>
  The five literals of cell 9, as Python evaluates them. The third one is written in the
  notebook as an ordinary (non-raw) string literal
  \<^verbatim>\<open>"/[^a-z \d \' \. \, \" \: \; \? \- \!  \s]/i"\<close>, in which \<^verbatim>\<open>\'\<close> and
  \<^verbatim>\<open>\"\<close> are escapes for the quote characters and every other backslash stays; the
  fourth is the raw literal \<^verbatim>\<open>r"http\S+"\<close>.
\<close>

definition NEWLINE_TOKEN :: string where
  "NEWLINE_TOKEN = ''NEWLINE_TOKEN''"

definition TAB_TOKEN :: string where
  "TAB_TOKEN = ''TAB_TOKEN''"

definition PUNCT_LITERAL :: string where
  "PUNCT_LITERAL =
     ''/[^a-z '' @ [bsl] @ ''d '' @ [squote] @ '' '' @ [bsl] @ ''. '' @ [bsl] @ '', ''
     @ [dquote] @ '' '' @ [bsl] @ '': '' @ [bsl] @ ''; '' @ [bsl] @ ''? '' @ [bsl] @ ''- ''
     @ [bsl] @ ''!  '' @ [bsl] @ ''s]/i''"

definition HTTP_LITERAL :: string where
  "HTTP_LITERAL = ''http'' @ [bsl] @ ''S+''"

definition DIGIT_LITERAL :: string where
  "DIGIT_LITERAL = ''[0-9]''"

definition cleaning_literals :: "string list" where
  "cleaning_literals =
     [NEWLINE_TOKEN, TAB_TOKEN, PUNCT_LITERAL, HTTP_LITERAL, DIGIT_LITERAL]"

text \<open>
  Cell 9 rewrites the column \<^verbatim>\<open>comments['comment']\<close> five times, each time with
  \<^verbatim>\<open>.apply(lambda x: x.replace(old, new))\<close>.
\<close>

definition clean_comments :: "string list \<Rightarrow> string list" where
  "clean_comments col0 =
     (let col1 = series_apply (\<lambda>x. str_replace NEWLINE_TOKEN '' '' x) col0;
          col2 = series_apply (\<lambda>x. str_replace TAB_TOKEN '' '' x) col1;
          col3 = series_apply (\<lambda>x. str_replace PUNCT_LITERAL '' '' x) col2;
          col4 = series_apply (\<lambda>x. str_replace HTTP_LITERAL '''' x) col3;
          col5 = series_apply (\<lambda>x. str_replace DIGIT_LITERAL '''' x) col4
      in col5)"

text \<open>What the five passes of cell 9 do to one comment.\<close>

definition clean_comment :: "string \<Rightarrow> string" where
  "clean_comment x =
     str_replace DIGIT_LITERAL ''''
       (str_replace HTTP_LITERAL ''''
         (str_replace PUNCT_LITERAL '' ''
           (str_replace TAB_TOKEN '' ''
             (str_replace NEWLINE_TOKEN '' '' x))))"

text \<open>
  Cell 24 rewrites the column \<^verbatim>\<open>corpus['comment']\<close> twice, with the two token rules
  only, before the classifier is applied.
\<close>

definition clean_corpus :: "string list \<Rightarrow> string list" where
  "clean_corpus col0 =
     (let col1 = series_apply (\<lambda>x. str_replace NEWLINE_TOKEN '' '' x) col0;
          col2 = series_apply (\<lambda>x. str_replace TAB_TOKEN '' '' x) col1
      in col2)"

section \<open>Labels from annotations (cells 5 to 8)\<close>

text \<open>
  Exceptions of the Python run that the model keeps as values.
\<close>

datatype py_error = FileNotFoundError | ValueError | AttributeError | NotImplementedError


record comment_row =
  c_rev_id :: int
  c_comment :: string
  c_split :: string
  c_attack :: "bool option"

definition mean :: "real list \<Rightarrow> real" where
  "mean xs = sum_list xs / real (length xs)"





section \<open>Sampling the corpus (cells 22 and 23)\<close>

text \<open>
  A row of a corpus chunk. The columns \<^verbatim>\<open>include\<close>, \<^verbatim>\<open>ns\<close>, \<^verbatim>\<open>year\<close> and
  \<^verbatim>\<open>attack\<close> do not exist in the files; the notebook adds them, and until then they are
  \<open>None\<close>.
\<close>

record corpus_row =
  cr_rev_id :: int
  cr_comment :: string
  cr_bot :: int
  cr_admin :: int
  cr_include :: "int option"
  cr_ns :: "string option"
  cr_year :: "int option"
  cr_attack :: "bool option"

text \<open>
  What \<^verbatim>\<open>load_no_bot_no_admin\<close> takes from outside: \<^verbatim>\<open>os.walk\<close> (for every directory
  visited, the list of its file names), \<^verbatim>\<open>pd.read_csv\<close> (\<open>None\<close> when the file is not
  there) and \<^verbatim>\<open>bernoulli.rvs(prob, size = n)\<close>, which draws from a generator state of
  type \<open>'g\<close> and returns the new state.
\<close>

record 'g corpus_env =
  os_walk :: "string \<Rightarrow> string list list"
  read_csv :: "string \<Rightarrow> corpus_row list option"
  bernoulli_rvs :: "real \<Rightarrow> nat \<Rightarrow> 'g \<Rightarrow> int list \<times> 'g"

text \<open>
  \<^verbatim>\<open>re.match("chunk_\d*.tsv", filename)\<close>: the name starts with \<^verbatim>\<open>chunk_\<close>, then come
  digits, then any one character other than a newline, then \<^verbatim>\<open>tsv\<close>; what follows is
  not looked at. The number of digits taken is whatever makes the rest match.
\<close>

definition is_digit :: "char \<Rightarrow> bool" where
  "is_digit c = (c \<in> set ''0123456789'')"

definition match_dot_tsv :: "string \<Rightarrow> bool" where
  "match_dot_tsv s =
     (case s of [] \<Rightarrow> False | c # rest \<Rightarrow> c \<noteq> CHR 0x0A \<and> prefix ''tsv'' rest)"

fun match_digits_dot_tsv :: "string \<Rightarrow> bool" where
  "match_digits_dot_tsv [] = False"
| "match_digits_dot_tsv (c # cs) =
     ((is_digit c \<and> match_digits_dot_tsv cs) \<or> match_dot_tsv (c # cs))"

definition re_match_chunk :: "string \<Rightarrow> bool" where
  "re_match_chunk filename =
     (prefix ''chunk_'' filename \<and> match_digits_dot_tsv (drop 6 filename))"

text \<open>\<^verbatim>\<open>"comments_%s_%d" % (ns, year)\<close>, with the decimal digits of \<^verbatim>\<open>%d\<close>.\<close>

fun nat_digits :: "nat \<Rightarrow> string" where
  "nat_digits n =
     (if n < 10 then [''0123456789'' ! n]
      else nat_digits (n div 10) @ [''0123456789'' ! (n mod 10)])"

declare nat_digits.simps [simp del]

definition format_d :: "int \<Rightarrow> string" where
  "format_d i = (if i < 0 then ''-'' @ nat_digits (nat (- i)) else nat_digits (nat i))"

definition data_dir_of :: "string \<Rightarrow> int \<Rightarrow> string" where
  "data_dir_of ns year = ''comments_'' @ ns @ ''_'' @ format_d year"

definition os_path_join :: "string \<Rightarrow> string \<Rightarrow> string" where
  "os_path_join d f =
     (if prefix ''/'' f then f
      else if d = [] \<or> last d = CHR ''/'' then d @ f
      else d @ ''/'' @ f)"

text \<open>
  The two nested loops of \<^verbatim>\<open>load_no_bot_no_admin\<close>, over the file names that
  \<^verbatim>\<open>os.walk\<close> yields: a matching file is read, gets its \<^verbatim>\<open>include\<close> column from the
  Bernoulli draws, is filtered with
  \<^verbatim>\<open>df.query("bot == 0 and admin == 0 and include == 1")\<close> and appended to \<^verbatim>\<open>dfs\<close>.
  A missing file raises, and so does a column of the wrong length.
\<close>

fun load_chunks ::
  "'g corpus_env \<Rightarrow> string \<Rightarrow> real \<Rightarrow> string list \<Rightarrow> corpus_row list list \<Rightarrow> 'g
     \<Rightarrow> py_error + (corpus_row list list \<times> 'g)" where
  "load_chunks env data_dir prob [] dfs g = Inr (dfs, g)"
| "load_chunks env data_dir prob (filename # rest) dfs g =
     (if re_match_chunk filename then
        (case read_csv env (os_path_join data_dir filename) of
           None \<Rightarrow> Inl FileNotFoundError
         | Some df \<Rightarrow>
             (case bernoulli_rvs env prob (length df) g of
                (draws, g') \<Rightarrow>
                  if length draws \<noteq> length df then Inl ValueError
                  else
                    (let df1 = map (\<lambda>(r, d). r\<lparr>cr_include := Some d\<rparr>) (zip df draws);
                         df2 = filter (\<lambda>r. cr_bot r = 0 \<and> cr_admin r = 0
                                  \<and> cr_include r = Some 1) df1
                     in load_chunks env data_dir prob rest (dfs @ [df2]) g')))
      else load_chunks env data_dir prob rest dfs g)"

text \<open>
  \<^verbatim>\<open>load_no_bot_no_admin(ns, year, prob)\<close>. \<^verbatim>\<open>pd.concat\<close> raises on an empty list of
  frames; otherwise the concatenated sample gets its \<^verbatim>\<open>ns\<close> and \<^verbatim>\<open>year\<close> columns.
\<close>

definition load_no_bot_no_admin ::
  "'g corpus_env \<Rightarrow> string \<Rightarrow> int \<Rightarrow> real \<Rightarrow> 'g \<Rightarrow> py_error + (corpus_row list \<times> 'g)" where
  "load_no_bot_no_admin env ns year prob g =
     (let data_dir = data_dir_of ns year in
      case load_chunks env data_dir prob (concat (os_walk env data_dir)) [] g of
        Inl e \<Rightarrow> Inl e
      | Inr (dfs, g') \<Rightarrow>
          if dfs = [] then Inl ValueError
          else
            (let sample = concat dfs;
                 sample1 = map (\<lambda>r. r\<lparr>cr_ns := Some ns\<rparr>) sample;
                 sample2 = map (\<lambda>r. r\<lparr>cr_year := Some year\<rparr>) sample1
             in Inr (sample2, g')))"

section \<open>The text pipeline (cells 11 to 15)\<close>

text \<open>
  The notebook takes the stemmer (\<^verbatim>\<open>EnglishStemmer().stem\<close>) and the tokenizer
  (\<^verbatim>\<open>CountVectorizer().build_analyzer()\<close>) from its libraries, and defines
  \<^verbatim>\<open>stemmed_words(doc)\<close> as the stems of the tokens of \<open>doc\<close>, in order.
\<close>

record text_lib =
  stemmer_stem :: "string \<Rightarrow> string"
  analyzer :: "string \<Rightarrow> string list"

definition stemmed_words :: "text_lib \<Rightarrow> string \<Rightarrow> string list" where
  "stemmed_words L doc = map (stemmer_stem L) (analyzer L doc)"

text \<open>
  A fitted \<^verbatim>\<open>Pipeline([('vect', CountVectorizer(..., analyzer=stemmed_words)),
  ('tfidf', TfidfTransformer(norm='l2')), ('clf', ...)])\<close>: the vocabulary of the
  vectorizer (feature \<open>j\<close> is the term \<open>vocabulary ! j\<close>), the weights of the tf-idf stage,
  and the decision and probability functions of the final classifier on a feature
  vector. A classifier without \<^verbatim>\<open>predict_proba\<close> (\<^verbatim>\<open>LinearSVC\<close>) has \<open>None\<close> there.

  The analyzer handed to \<^verbatim>\<open>CountVectorizer\<close> is a callable, so the features of a
  document are the items the callable returns, counted; \<^verbatim>\<open>ngram_range\<close> and
  \<^verbatim>\<open>strip_accents\<close> are read by the built-in analyzers only.
\<close>

record fitted_pipeline =
  vocabulary :: "string list"
  idf :: "real list"
  clf_predict :: "real list \<Rightarrow> bool"
  clf_predict_proba :: "(real list \<Rightarrow> real \<times> real) option"

definition count_vectorizer_transform ::
  "text_lib \<Rightarrow> fitted_pipeline \<Rightarrow> string \<Rightarrow> real list" where
  "count_vectorizer_transform L P doc =
     map (\<lambda>t. real (count_list (stemmed_words L doc) t)) (vocabulary P)"

text \<open>Counts times weights, then the row divided by its Euclidean norm unless that is 0.\<close>

definition tfidf_transform :: "fitted_pipeline \<Rightarrow> real list \<Rightarrow> real list" where
  "tfidf_transform P counts =
     (let w = map (\<lambda>(c, i). c * i) (zip counts (idf P));
          n = sqrt (sum_list (map (\<lambda>v. v * v) w))
      in if n = 0 then w else map (\<lambda>v. v / n) w)"

definition pipeline_features :: "text_lib \<Rightarrow> fitted_pipeline \<Rightarrow> string \<Rightarrow> real list" where
  "pipeline_features L P doc = tfidf_transform P (count_vectorizer_transform L P doc)"

text \<open>\<^verbatim>\<open>clf.predict(docs)\<close> and \<^verbatim>\<open>clf.predict_proba(docs)\<close>, one row per document.\<close>

definition pipeline_predict :: "text_lib \<Rightarrow> fitted_pipeline \<Rightarrow> string list \<Rightarrow> bool list" where
  "pipeline_predict L P docs = map (\<lambda>doc. clf_predict P (pipeline_features L P doc)) docs"

definition pipeline_predict_proba ::
  "text_lib \<Rightarrow> fitted_pipeline \<Rightarrow> string list \<Rightarrow> py_error + (real \<times> real) list" where
  "pipeline_predict_proba L P docs =
     (case clf_predict_proba P of
        None \<Rightarrow> Inl AttributeError
      | Some proba \<Rightarrow> Inr (map (\<lambda>doc. proba (pipeline_features L P doc)) docs))"

section \<open>Prevalence by namespace (cells 24 and 25)\<close>

text \<open>
  Cell 24: the two token replacements on \<^verbatim>\<open>corpus['comment']\<close>, then
  \<^verbatim>\<open>corpus['attack'] = clf.predict_proba(corpus['comment'])[:,1] > 0.425\<close>.
  Probabilities are taken as real numbers.
\<close>

definition apply_model ::
  "text_lib \<Rightarrow> fitted_pipeline \<Rightarrow> corpus_row list \<Rightarrow> py_error + corpus_row list" where
  "apply_model L clf corpus =
     (let col = clean_corpus (map cr_comment corpus);
          corpus1 = map (\<lambda>(r, x). r\<lparr>cr_comment := x\<rparr>) (zip corpus col)
      in case pipeline_predict_proba L clf (map cr_comment corpus1) of
           Inl e \<Rightarrow> Inl e
         | Inr probs \<Rightarrow>
             Inr (map (\<lambda>(r, p). r\<lparr>cr_attack := Some (snd p > 0.425)\<rparr>) (zip corpus1 probs)))"

text \<open>
  Cell 25: \<^verbatim>\<open>sns.pointplot(data = corpus, x = 'ns', y = 'attack')\<close> plots, for every
  namespace among the rows, the mean of the \<^verbatim>\<open>attack\<close> column of its rows, \<open>True\<close>
  counting 1 and \<open>False\<close> 0. A namespace without rows gets no point.
\<close>

definition attack_fraction :: "corpus_row list \<Rightarrow> string \<Rightarrow> real option" where
  "attack_fraction corpus ns =
     (let ys = map (\<lambda>r. if cr_attack r = Some True then 1 else 0)
                 (filter (\<lambda>r. cr_ns r = Some ns \<and> cr_attack r \<noteq> None) corpus)
      in if ys = [] then None else Some (mean ys))"

section \<open>The classifier comparison (cells 11 to 15)\<close>

text \<open>
  The final stage of the five pipelines, with the arguments the notebook gives:
  \<^verbatim>\<open>LogisticRegression(penalty, dual)\<close>,
  \<^verbatim>\<open>RandomForestClassifier(n_estimators, max_depth, random_state)\<close>,
  \<^verbatim>\<open>LinearSVC(C, loss, max_iter, tol, random_state)\<close> (its other arguments are the
  defaults written out), \<^verbatim>\<open>MultinomialNB()\<close> and \<^verbatim>\<open>MLPClassifier()\<close>.
\<close>

datatype classifier =
    LogisticRegression string bool
  | RandomForestClassifier nat nat nat
  | LinearSVC real string nat real nat
  | MultinomialNB
  | MLPClassifier

text \<open>
  The arguments of the vectorizer stage; \<^verbatim>\<open>analyzer\<close> is the callable
  \<^verbatim>\<open>stemmed_words\<close>.
\<close>

record vect_params =
  max_df :: real
  min_df :: nat
  max_features :: nat
  ngram_range :: "nat \<times> nat"
  vect_analyzer :: "string \<Rightarrow> string list"

record pipeline_spec =
  vect :: vect_params
  tfidf_norm :: string
  clf_stage :: classifier

text \<open>
  What the cells take from scikit-learn: fitting a pipeline on the training comments and
  labels, and the three metrics whose values the cells keep. Each of them can raise. A
  label that is missing is passed on as it is.
\<close>

record sklearn_lib =
  pipeline_fit ::
    "pipeline_spec \<Rightarrow> string list \<Rightarrow> bool option list \<Rightarrow> py_error + fitted_pipeline"
  roc_auc_score :: "bool option list \<Rightarrow> real list \<Rightarrow> py_error + real"
  precision_recall_fscore_support ::
    "bool option list \<Rightarrow> bool list \<Rightarrow> py_error + real list list"
  confusion_matrix :: "bool option list \<Rightarrow> bool list \<Rightarrow> py_error + nat list list"

text \<open>
  The variables a comparison cell assigns. (It also prints
  \<^verbatim>\<open>classification_report(test_comments['attack'], predicted_values)\<close>, in all five
  cells from the same two arguments.)
\<close>

record run_result =
  auc :: real
  predicted_values :: "bool list"
  precision_recall_fscore :: "real list list"
  cmat :: "nat list list"

text \<open>A statement that raises ends the cell: the statements after it do not run.\<close>

definition bind_err ::
  "py_error + 'a \<Rightarrow> ('a \<Rightarrow> py_error + 'b) \<Rightarrow> py_error + 'b" where
  "bind_err r f = (case r of Inr x \<Rightarrow> f x | Inl e \<Rightarrow> Inl e)"

text \<open>\<^verbatim>\<open>comments.query("split=='train'")\<close> and \<^verbatim>\<open>comments.query("split=='test'")\<close>.\<close>

definition query_split :: "string \<Rightarrow> comment_row list \<Rightarrow> comment_row list" where
  "query_split s comments = filter (\<lambda>r. c_split r = s) comments"

text \<open>
  \<^verbatim>\<open>CountVectorizer(max_df = 1.0, min_df = 1, max_features = 10000,
  ngram_range = (1,4), analyzer = stemmed_words, strip_accents = {'ascii'})\<close>.
\<close>

definition count_vectorizer :: "text_lib \<Rightarrow> vect_params" where
  "count_vectorizer L =
     \<lparr>max_df = 1.0, min_df = 1, max_features = 10000, ngram_range = (1, 4),
      vect_analyzer = stemmed_words L\<rparr>"

text \<open>Predicted labels handed to a metric that expects scores: \<open>True\<close> is 1, \<open>False\<close> 0.\<close>

definition bool_scores :: "bool list \<Rightarrow> real list" where
  "bool_scores ys = map (\<lambda>b. if b then 1 else 0) ys"

text \<open>
  Cell 11 (logistic regression) and cell 12 (random forest):
  \<^verbatim>\<open>auc = roc_auc_score(test_comments['attack'],
  clf.predict_proba(test_comments['comment'])[:, 1])\<close>.
\<close>

definition cell11 ::
  "sklearn_lib \<Rightarrow> text_lib \<Rightarrow> comment_row list \<Rightarrow> py_error + run_result" where
  "cell11 sk L comments =
     (let train_comments = query_split ''train'' comments;
          test_comments = query_split ''test'' comments
      in bind_err (pipeline_fit sk
                     \<lparr>vect = count_vectorizer L, tfidf_norm = ''l2'',
                      clf_stage = LogisticRegression ''l2'' False\<rparr>
                     (map c_comment train_comments) (map c_attack train_comments)) (\<lambda>clf.
         bind_err (pipeline_predict_proba L clf (map c_comment test_comments)) (\<lambda>proba.
         bind_err (roc_auc_score sk (map c_attack test_comments) (map snd proba)) (\<lambda>auc.
         let predicted_values = pipeline_predict L clf (map c_comment test_comments) in
         bind_err (precision_recall_fscore_support sk (map c_attack test_comments)
                     predicted_values) (\<lambda>precision_recall_fscore.
         bind_err (confusion_matrix sk (map c_attack test_comments) predicted_values) (\<lambda>cmat.
         Inr \<lparr>auc = auc, predicted_values = predicted_values,
              precision_recall_fscore = precision_recall_fscore, cmat = cmat\<rparr>))))))"

definition cell12 ::
  "sklearn_lib \<Rightarrow> text_lib \<Rightarrow> comment_row list \<Rightarrow> py_error + run_result" where
  "cell12 sk L comments =
     (let train_comments = query_split ''train'' comments;
          test_comments = query_split ''test'' comments
      in bind_err (pipeline_fit sk
                     \<lparr>vect = count_vectorizer L, tfidf_norm = ''l2'',
                      clf_stage = RandomForestClassifier 200 100 1\<rparr>
                     (map c_comment train_comments) (map c_attack train_comments)) (\<lambda>clf.
         bind_err (pipeline_predict_proba L clf (map c_comment test_comments)) (\<lambda>proba.
         bind_err (roc_auc_score sk (map c_attack test_comments) (map snd proba)) (\<lambda>auc.
         let predicted_values = pipeline_predict L clf (map c_comment test_comments) in
         bind_err (precision_recall_fscore_support sk (map c_attack test_comments)
                     predicted_values) (\<lambda>precision_recall_fscore.
         bind_err (confusion_matrix sk (map c_attack test_comments) predicted_values) (\<lambda>cmat.
         Inr \<lparr>auc = auc, predicted_values = predicted_values,
              precision_recall_fscore = precision_recall_fscore, cmat = cmat\<rparr>))))))"

text \<open>
  Cell 13 (linear SVC), cell 14 (multinomial naive Bayes) and cell 15 (multilayer
  perceptron):
  \<^verbatim>\<open>auc = roc_auc_score(test_comments['attack'], clf.predict(test_comments['comment']))\<close>.
\<close>

definition cell13 ::
  "sklearn_lib \<Rightarrow> text_lib \<Rightarrow> comment_row list \<Rightarrow> py_error + run_result" where
  "cell13 sk L comments =
     (let train_comments = query_split ''train'' comments;
          test_comments = query_split ''test'' comments
      in bind_err (pipeline_fit sk
                     \<lparr>vect = count_vectorizer L, tfidf_norm = ''l2'',
                      clf_stage = LinearSVC 1.0 ''squared_hinge'' 1000 0.0001 0\<rparr>
                     (map c_comment train_comments) (map c_attack train_comments)) (\<lambda>clf.
         bind_err (roc_auc_score sk (map c_attack test_comments)
                     (bool_scores (pipeline_predict L clf (map c_comment test_comments)))) (\<lambda>auc.
         let predicted_values = pipeline_predict L clf (map c_comment test_comments) in
         bind_err (precision_recall_fscore_support sk (map c_attack test_comments)
                     predicted_values) (\<lambda>precision_recall_fscore.
         bind_err (confusion_matrix sk (map c_attack test_comments) predicted_values) (\<lambda>cmat.
         Inr \<lparr>auc = auc, predicted_values = predicted_values,
              precision_recall_fscore = precision_recall_fscore, cmat = cmat\<rparr>)))))"

definition cell14 ::
  "sklearn_lib \<Rightarrow> text_lib \<Rightarrow> comment_row list \<Rightarrow> py_error + run_result" where
  "cell14 sk L comments =
     (let train_comments = query_split ''train'' comments;
          test_comments = query_split ''test'' comments
      in bind_err (pipeline_fit sk
                     \<lparr>vect = count_vectorizer L, tfidf_norm = ''l2'',
                      clf_stage = MultinomialNB\<rparr>
                     (map c_comment train_comments) (map c_attack train_comments)) (\<lambda>clf.
         bind_err (roc_auc_score sk (map c_attack test_comments)
                     (bool_scores (pipeline_predict L clf (map c_comment test_comments)))) (\<lambda>auc.
         let predicted_values = pipeline_predict L clf (map c_comment test_comments) in
         bind_err (precision_recall_fscore_support sk (map c_attack test_comments)
                     predicted_values) (\<lambda>precision_recall_fscore.
         bind_err (confusion_matrix sk (map c_attack test_comments) predicted_values) (\<lambda>cmat.
         Inr \<lparr>auc = auc, predicted_values = predicted_values,
              precision_recall_fscore = precision_recall_fscore, cmat = cmat\<rparr>)))))"

definition cell15 ::
  "sklearn_lib \<Rightarrow> text_lib \<Rightarrow> comment_row list \<Rightarrow> py_error + run_result" where
  "cell15 sk L comments =
     (let train_comments = query_split ''train'' comments;
          test_comments = query_split ''test'' comments
      in bind_err (pipeline_fit sk
                     \<lparr>vect = count_vectorizer L, tfidf_norm = ''l2'',
                      clf_stage = MLPClassifier\<rparr>
                     (map c_comment train_comments) (map c_attack train_comments)) (\<lambda>clf.
         bind_err (roc_auc_score sk (map c_attack test_comments)
                     (bool_scores (pipeline_predict L clf (map c_comment test_comments)))) (\<lambda>auc.
         let predicted_values = pipeline_predict L clf (map c_comment test_comments) in
         bind_err (precision_recall_fscore_support sk (map c_attack test_comments)
                     predicted_values) (\<lambda>precision_recall_fscore.
         bind_err (confusion_matrix sk (map c_attack test_comments) predicted_values) (\<lambda>cmat.
         Inr \<lparr>auc = auc, predicted_values = predicted_values,
              precision_recall_fscore = precision_recall_fscore, cmat = cmat\<rparr>)))))"

text \<open>
  The comparison as the specification describes it: one sequence of steps (select the
  rows, fit the pipeline with the given vectorizer and tf-idf settings, compute the
  metrics), with the final classifier stage as a parameter. The second parameter is the
  model output handed to \<^verbatim>\<open>roc_auc_score\<close>.
\<close>

datatype auc_input = Predict_proba | Predict

definition auc_scores ::
  "auc_input \<Rightarrow> text_lib \<Rightarrow> fitted_pipeline \<Rightarrow> string list \<Rightarrow> py_error + real list" where
  "auc_scores src L P docs =
     (case src of
        Predict_proba \<Rightarrow>
          (case pipeline_predict_proba L P docs of
             Inl e \<Rightarrow> Inl e
           | Inr proba \<Rightarrow> Inr (map snd proba))
      | Predict \<Rightarrow> Inr (bool_scores (pipeline_predict L P docs)))"

definition comparison_run ::
  "auc_input \<Rightarrow> classifier \<Rightarrow> sklearn_lib \<Rightarrow> text_lib \<Rightarrow> comment_row list
     \<Rightarrow> py_error + run_result" where
  "comparison_run src final_stage sk L comments =
     (let train_comments = query_split ''train'' comments;
          test_comments = query_split ''test'' comments;
          y_test = map c_attack test_comments
      in bind_err (pipeline_fit sk
                     \<lparr>vect = \<lparr>max_df = 1.0, min_df = 1, max_features = 10000,
                              ngram_range = (1, 4), vect_analyzer = stemmed_words L\<rparr>,
                      tfidf_norm = ''l2'', clf_stage = final_stage\<rparr>
                     (map c_comment train_comments) (map c_attack train_comments)) (\<lambda>P.
         bind_err (auc_scores src L P (map c_comment test_comments)) (\<lambda>scores.
         bind_err (roc_auc_score sk y_test scores) (\<lambda>a.
         let predicted = pipeline_predict L P (map c_comment test_comments) in
         bind_err (precision_recall_fscore_support sk y_test predicted) (\<lambda>prf.
         bind_err (confusion_matrix sk y_test predicted) (\<lambda>cm.
         Inr \<lparr>auc = a, predicted_values = predicted,
              precision_recall_fscore = prf, cmat = cm\<rparr>))))))"

section \<open>A stand-in for the library\<close>

text \<open>
  For a concrete run of the comparison cells the library functions need values. The
  metrics are the usual ones for two labels: the area under the ROC curve as the share
  of pairs of a positive and a negative example in which the positive has the higher
  score (ties count one half), which needs both labels among the true ones; the
  confusion matrix and precision, recall, F-score and support over the labels that
  occur, \<open>False\<close> before \<open>True\<close>. A missing true label raises.
\<close>

definition pairwise_auc :: "bool option list \<Rightarrow> real list \<Rightarrow> real" where
  "pairwise_auc y_true y_score =
     (let pos = map snd (filter (\<lambda>(y, s). y = Some True) (zip y_true y_score));
          neg = map snd (filter (\<lambda>(y, s). y = Some False) (zip y_true y_score))
      in sum_list (map (\<lambda>p. sum_list (map (\<lambda>n. if n < p then 1 else if n = p then 1 / 2 else 0)
                                   neg)) pos)
           / real (length pos * length neg))"

definition two_classes :: "bool option list \<Rightarrow> bool" where
  "two_classes ys = (None \<notin> set ys \<and> Some True \<in> set ys \<and> Some False \<in> set ys)"

definition demo_roc_auc_score :: "bool option list \<Rightarrow> real list \<Rightarrow> py_error + real" where
  "demo_roc_auc_score y_true y_score =
     (if two_classes y_true then Inr (pairwise_auc y_true y_score) else Inl ValueError)"

definition labels_present :: "bool option list \<Rightarrow> bool list \<Rightarrow> bool list" where
  "labels_present y_true y_pred =
     filter (\<lambda>c. Some c \<in> set y_true \<or> c \<in> set y_pred) [False, True]"

definition count_cell :: "bool option list \<Rightarrow> bool list \<Rightarrow> bool \<Rightarrow> bool \<Rightarrow> nat" where
  "count_cell y_true y_pred t p =
     length (filter (\<lambda>(y, q). y = Some t \<and> q = p) (zip y_true y_pred))"

definition demo_confusion_matrix ::
  "bool option list \<Rightarrow> bool list \<Rightarrow> py_error + nat list list" where
  "demo_confusion_matrix y_true y_pred =
     (if None \<in> set y_true then Inl ValueError
      else Inr (map (\<lambda>t. map (\<lambda>p. count_cell y_true y_pred t p)
                           (labels_present y_true y_pred))
                  (labels_present y_true y_pred)))"

definition ratio :: "nat \<Rightarrow> nat \<Rightarrow> real" where
  "ratio a b = (if b = 0 then 0 else real a / real b)"

definition demo_precision_recall_fscore_support ::
  "bool option list \<Rightarrow> bool list \<Rightarrow> py_error + real list list" where
  "demo_precision_recall_fscore_support y_true y_pred =
     (let prec = (\<lambda>c. ratio (count_cell y_true y_pred c c) (length (filter (\<lambda>q. q = c) y_pred)));
          rec = (\<lambda>c. ratio (count_cell y_true y_pred c c)
                        (length (filter (\<lambda>y. y = Some c) y_true)));
          f = (\<lambda>c. if prec c + rec c = 0 then 0 else 2 * prec c * rec c / (prec c + rec c));
          support = (\<lambda>c. real (length (filter (\<lambda>y. y = Some c) y_true)));
          ls = labels_present y_true y_pred
      in if None \<in> set y_true then Inl ValueError
         else Inr [map prec ls, map rec ls, map f ls, map support ls])"

text \<open>
  Fitting stands in for the estimators of the library with a small linear learner, for
  the logistic regression and the linear SVC only. As in the library, labels of one class
  only (or a missing label) raise. The vocabulary is the set of stems of the training
  comments, cut at \<^verbatim>\<open>max_features\<close>; the tf-idf weight of a term is
  \<open>ln ((1 + n) / (1 + df)) + 1\<close> for \<open>n\<close> training comments of which \<open>df\<close> contain the
  term; the coefficient of a term is the number of attack comments containing it minus
  the number of other comments containing it, and there is no intercept. The predicted
  label is the sign of the score, the probability of the attack class its logistic
  transform; the linear SVC has no probabilities.
\<close>

definition sigmoid :: "real \<Rightarrow> real" where
  "sigmoid z = 1 / (1 + exp (- z))"

definition dot :: "real list \<Rightarrow> real list \<Rightarrow> real" where
  "dot w x = sum_list (map (\<lambda>(a, b). a * b) (zip w x))"

definition doc_frequency :: "string list list \<Rightarrow> string \<Rightarrow> nat" where
  "doc_frequency docs t = length (filter (\<lambda>d. t \<in> set d) docs)"

definition linear_model :: "string list list \<Rightarrow> bool option list \<Rightarrow> nat \<Rightarrow> bool \<Rightarrow> fitted_pipeline" where
  "linear_model toks ys limit with_proba =
     (let vocab = take limit (remdups (concat toks));
          pos = map fst (filter (\<lambda>(d, y). y = Some True) (zip toks ys));
          neg = map fst (filter (\<lambda>(d, y). y = Some False) (zip toks ys));
          w = map (\<lambda>t. real (doc_frequency pos t) - real (doc_frequency neg t)) vocab
      in \<lparr>vocabulary = vocab,
          idf = map (\<lambda>t. ln (real (1 + length toks) / real (1 + doc_frequency toks t)) + 1) vocab,
          clf_predict = (\<lambda>x. dot w x > 0),
          clf_predict_proba =
            (if with_proba then Some (\<lambda>x. (1 - sigmoid (dot w x), sigmoid (dot w x)))
             else None)\<rparr>)"

definition demo_fit ::
  "pipeline_spec \<Rightarrow> string list \<Rightarrow> bool option list \<Rightarrow> py_error + fitted_pipeline" where
  "demo_fit spec docs ys =
     (let toks = map (vect_analyzer (vect spec)) docs;
          limit = max_features (vect spec)
      in case clf_stage spec of
           LogisticRegression penalty dual \<Rightarrow>
             if two_classes ys then Inr (linear_model toks ys limit True) else Inl ValueError
         | LinearSVC c loss max_iter tol random_state \<Rightarrow>
             if two_classes ys then Inr (linear_model toks ys limit False) else Inl ValueError
         | _ \<Rightarrow> Inl NotImplementedError)"

section \<open>Concrete inputs\<close>

definition demo_env :: "nat corpus_env" where
  "demo_env =
     \<lparr>os_walk = (\<lambda>d. if d = ''comments_user_2004'' then [[''chunk_0.tsv'', ''notes.txt'']] else []),
      read_csv = (\<lambda>p. if p = ''comments_user_2004/chunk_0.tsv''
         then Some [\<lparr>cr_rev_id = 1, cr_comment = ''hi'', cr_bot = 0, cr_admin = 0,
                      cr_include = None, cr_ns = None, cr_year = None, cr_attack = None\<rparr>,
                    \<lparr>cr_rev_id = 2, cr_comment = ''bot edit'', cr_bot = 1, cr_admin = 0,
                      cr_include = None, cr_ns = None, cr_year = None, cr_attack = None\<rparr>,
                    \<lparr>cr_rev_id = 3, cr_comment = ''skipped'', cr_bot = 0, cr_admin = 0,
                      cr_include = None, cr_ns = None, cr_year = None, cr_attack = None\<rparr>]
         else None),
      bernoulli_rvs = (\<lambda>p n g. (map (\<lambda>i. if i = 2 then 0 else 1) [g..<g + n], g + n))\<rparr>"

definition demo_text_lib :: text_lib where
  "demo_text_lib =
     \<lparr>stemmer_stem = (\<lambda>w. if w = ''idiots'' then ''idiot''
                           else if w = ''thanks'' then ''thank'' else w),
      analyzer = (\<lambda>d. if d = ''you are idiots'' then [''you'', ''are'', ''idiots'']
                       else if d = ''idiots are you'' then [''idiots'', ''are'', ''you'']
                       else if d = ''so so'' then [''so'', ''so'']
                       else if d = '' thanks'' then [''thanks'']
                       else if d = ''thanks'' then [''thanks'']
                       else if d = ''idiots'' then [''idiots'']
                       else if d = ''thanks thanks idiots'' then [''thanks'', ''thanks'', ''idiots'']
                       else [])\<rparr>"

definition demo_pipeline :: fitted_pipeline where
  "demo_pipeline =
     \<lparr>vocabulary = [''idiot'', ''so''],
      idf = [1, 1],
      clf_predict = (\<lambda>v. 0.9 * v ! 0 + 0.425 * v ! 1 > 0.5),
      clf_predict_proba =
        Some (\<lambda>v. (1 - (0.9 * v ! 0 + 0.425 * v ! 1), 0.9 * v ! 0 + 0.425 * v ! 1))\<rparr>"

definition demo_corpus :: "corpus_row list" where
  "demo_corpus =
     [\<lparr>cr_rev_id = 1, cr_comment = ''you are idiots'', cr_bot = 0, cr_admin = 0,
       cr_include = Some 1, cr_ns = Some ''user'', cr_year = Some 2004, cr_attack = None\<rparr>,
      \<lparr>cr_rev_id = 2, cr_comment = ''so so'', cr_bot = 0, cr_admin = 0,
       cr_include = Some 1, cr_ns = Some ''user'', cr_year = Some 2004, cr_attack = None\<rparr>,
      \<lparr>cr_rev_id = 3, cr_comment = ''NEWLINE_TOKENthanks'', cr_bot = 0, cr_admin = 0,
       cr_include = Some 1, cr_ns = Some ''article'', cr_year = Some 2004, cr_attack = None\<rparr>]"

definition demo_sklearn :: sklearn_lib where
  "demo_sklearn =
     \<lparr>pipeline_fit = demo_fit,
      roc_auc_score = demo_roc_auc_score,
      precision_recall_fscore_support = demo_precision_recall_fscore_support,
      confusion_matrix = demo_confusion_matrix\<rparr>"

text \<open>
  A frame for the comparison cells: one training comment of each class, and three test
  comments, two attacks and one other.
\<close>

definition demo_comments :: "comment_row list" where
  "demo_comments =
     [\<lparr>c_rev_id = 1, c_comment = ''idiots'', c_split = ''train'', c_attack = Some True\<rparr>,
      \<lparr>c_rev_id = 2, c_comment = ''thanks'', c_split = ''train'', c_attack = Some False\<rparr>,
      \<lparr>c_rev_id = 3, c_comment = ''idiots'', c_split = ''test'', c_attack = Some True\<rparr>,
      \<lparr>c_rev_id = 4, c_comment = ''thanks thanks idiots'', c_split = ''test'',
        c_attack = Some True\<rparr>,
      \<lparr>c_rev_id = 5, c_comment = ''thanks'', c_split = ''test'', c_attack = Some False\<rparr>]"

section \<open>Properties of \<open>str_replace\<close>\<close>

lemma str_replace_absent:
  "old \<noteq> [] \<Longrightarrow> \<not> sublist old s \<Longrightarrow> str_replace old new s = s"
proof (induction s)
  case Nil
  then show ?case by simp
next
  case (Cons c cs)
  from Cons.prems have np: "\<not> prefix old (c # cs)" and ns: "\<not> sublist old cs"
    by (simp_all add: sublist_Cons_right)
  with Cons show ?case by simp
qed

lemma prefix_append_short:
  "prefix old (a @ b) \<Longrightarrow> length old \<le> length a \<Longrightarrow> prefix old a"
  by (auto simp: prefix_append)

lemma str_replace_first:
  "old \<noteq> [] \<Longrightarrow> \<not> sublist old (xs @ butlast old)
     \<Longrightarrow> str_replace old new (xs @ old @ ys) = xs @ new @ str_replace old new ys"
proof (induction xs)
  case Nil
  then obtain c cs where old: "old = c # cs" by (cases old) auto
  have "prefix old (old @ ys)" by simp
  then show ?case
    unfolding old by simp
next
  case (Cons x xs)
  have split: "x # xs @ old @ ys = ((x # xs) @ butlast old) @ [last old] @ ys"
    by (metis Cons.prems(1) append_butlast_last_id append_assoc append_Cons)
  have np: "\<not> prefix old (x # xs @ old @ ys)"
  proof
    assume "prefix old (x # xs @ old @ ys)"
    then have "prefix old (((x # xs) @ butlast old) @ [last old] @ ys)"
      by (simp only: split)
    moreover have "length old \<le> length ((x # xs) @ butlast old)"
      by simp
    ultimately have "prefix old ((x # xs) @ butlast old)"
      by (rule prefix_append_short)
    then have "sublist old ((x # xs) @ butlast old)"
      by (rule prefix_imp_sublist)
    with Cons.prems(2) show False by simp
  qed
  have "\<not> sublist old (xs @ butlast old)"
    using Cons.prems(2) by (auto simp: sublist_Cons_right)
  with Cons.IH Cons.prems(1)
  have "str_replace old new (xs @ old @ ys) = xs @ new @ str_replace old new ys"
    by simp
  with np Cons.prems(1) show ?case by simp
qed

lemma str_replace_length_le:
  "old \<noteq> [] \<Longrightarrow> length new \<le> length old \<Longrightarrow> length (str_replace old new s) \<le> length s"
proof (induction old new s rule: str_replace.induct)
  case (1 old new)
  then show ?case by simp
next
  case (2 old new c cs)
  show ?case
  proof (cases "prefix old (c # cs)")
    case True
    then have "length old \<le> length (c # cs)"
      by (rule prefix_length_le)
    moreover have "length (str_replace old new (drop (length old) (c # cs)))
        \<le> length (drop (length old) (c # cs))"
      using 2 True by blast
    ultimately show ?thesis
      using 2(4,5) True by simp
  next
    case False
    then show ?thesis using 2 by simp
  qed
qed

lemma str_replace_length_less:
  "old \<noteq> [] \<Longrightarrow> length new < length old \<Longrightarrow> sublist old s
     \<Longrightarrow> length (str_replace old new s) < length s"
proof (induction old new s rule: str_replace.induct)
  case (1 old new)
  then show ?case by simp
next
  case (2 old new c cs)
  show ?case
  proof (cases "prefix old (c # cs)")
    case True
    then have "length old \<le> length (c # cs)"
      by (rule prefix_length_le)
    moreover have "length (str_replace old new (drop (length old) (c # cs)))
        \<le> length (drop (length old) (c # cs))"
      using 2(4,5) by (intro str_replace_length_le) simp_all
    ultimately show ?thesis
      using 2(4,5) True by simp
  next
    case False
    with 2(6) have "sublist old cs"
      by (simp add: sublist_Cons_right)
    with 2 False show ?thesis by simp
  qed
qed

lemma str_replace_changes:
  "old \<noteq> [] \<Longrightarrow> length new < length old \<Longrightarrow> sublist old s \<Longrightarrow> str_replace old new s \<noteq> s"
  using str_replace_length_less [of old new s] by auto

section \<open>Properties of the cleaning\<close>

lemma clean_comments_map: "clean_comments col = map clean_comment col"
  by (simp add: clean_comments_def clean_comment_def series_apply_def)

lemma clean_corpus_map:
  "clean_corpus col =
     map (\<lambda>x. str_replace TAB_TOKEN '' '' (str_replace NEWLINE_TOKEN '' '' x)) col"
  by (simp add: clean_corpus_def series_apply_def)

lemma literals_nonempty:
  "NEWLINE_TOKEN \<noteq> []" "TAB_TOKEN \<noteq> []" "PUNCT_LITERAL \<noteq> []" "HTTP_LITERAL \<noteq> []"
  "DIGIT_LITERAL \<noteq> []"
  by (simp_all add: NEWLINE_TOKEN_def TAB_TOKEN_def PUNCT_LITERAL_def HTTP_LITERAL_def
      DIGIT_LITERAL_def)

lemma literals_longer:
  "length '' '' < length NEWLINE_TOKEN" "length '' '' < length TAB_TOKEN"
  "length '' '' < length PUNCT_LITERAL" "length '''' < length HTTP_LITERAL"
  "length '''' < length DIGIT_LITERAL"
  by (simp_all add: NEWLINE_TOKEN_def TAB_TOKEN_def PUNCT_LITERAL_def HTTP_LITERAL_def
      DIGIT_LITERAL_def)

lemma clean_comment_absent:
  assumes "\<forall>p \<in> set cleaning_literals. \<not> sublist p x"
  shows "clean_comment x = x"
proof -
  from assms have "\<not> sublist NEWLINE_TOKEN x" "\<not> sublist TAB_TOKEN x"
    "\<not> sublist PUNCT_LITERAL x" "\<not> sublist HTTP_LITERAL x" "\<not> sublist DIGIT_LITERAL x"
    by (simp_all add: cleaning_literals_def)
  then show ?thesis
    by (simp add: clean_comment_def str_replace_absent literals_nonempty)
qed

lemma clean_comment_length_le: "length (clean_comment x) \<le> length x"
proof -
  let ?x1 = "str_replace NEWLINE_TOKEN '' '' x"
  let ?x2 = "str_replace TAB_TOKEN '' '' ?x1"
  let ?x3 = "str_replace PUNCT_LITERAL '' '' ?x2"
  let ?x4 = "str_replace HTTP_LITERAL '''' ?x3"
  have "length ?x1 \<le> length x"
    using literals_longer(1) by (intro str_replace_length_le literals_nonempty) simp
  moreover have "length ?x2 \<le> length ?x1"
    using literals_longer(2) by (intro str_replace_length_le literals_nonempty) simp
  moreover have "length ?x3 \<le> length ?x2"
    using literals_longer(3) by (intro str_replace_length_le literals_nonempty) simp
  moreover have "length ?x4 \<le> length ?x3"
    by (intro str_replace_length_le literals_nonempty) simp
  moreover have "length (str_replace DIGIT_LITERAL '''' ?x4) \<le> length ?x4"
    by (intro str_replace_length_le literals_nonempty) simp
  ultimately show ?thesis
    unfolding clean_comment_def by linarith
qed

lemma clean_comment_present:
  assumes "\<exists>p \<in> set cleaning_literals. sublist p x"
  shows "length (clean_comment x) < length x"
proof -
  let ?x1 = "str_replace NEWLINE_TOKEN '' '' x"
  let ?x2 = "str_replace TAB_TOKEN '' '' ?x1"
  let ?x3 = "str_replace PUNCT_LITERAL '' '' ?x2"
  let ?x4 = "str_replace HTTP_LITERAL '''' ?x3"
  let ?x5 = "str_replace DIGIT_LITERAL '''' ?x4"
  have le1: "length ?x1 \<le> length x"
    using literals_longer(1) by (intro str_replace_length_le literals_nonempty) simp
  have le2: "length ?x2 \<le> length ?x1"
    using literals_longer(2) by (intro str_replace_length_le literals_nonempty) simp
  have le3: "length ?x3 \<le> length ?x2"
    using literals_longer(3) by (intro str_replace_length_le literals_nonempty) simp
  have le4: "length ?x4 \<le> length ?x3"
    by (intro str_replace_length_le literals_nonempty) simp
  have le5: "length ?x5 \<le> length ?x4"
    by (intro str_replace_length_le literals_nonempty) simp
  have "length ?x5 < length x"
  proof (cases "sublist NEWLINE_TOKEN x")
    case True
    then have "length ?x1 < length x"
      by (intro str_replace_length_less literals_nonempty literals_longer)
    with le2 le3 le4 le5 show ?thesis by linarith
  next
    case n1: False
    then have e1: "?x1 = x"
      by (simp add: str_replace_absent literals_nonempty)
    show ?thesis
    proof (cases "sublist TAB_TOKEN x")
      case True
      then have "length ?x2 < length ?x1"
        unfolding e1 by (intro str_replace_length_less literals_nonempty literals_longer)
      with le1 le3 le4 le5 show ?thesis by linarith
    next
      case n2: False
      then have e2: "?x2 = x"
        by (simp add: e1 str_replace_absent literals_nonempty)
      show ?thesis
      proof (cases "sublist PUNCT_LITERAL x")
        case True
        then have "length ?x3 < length ?x2"
          unfolding e2 by (intro str_replace_length_less literals_nonempty literals_longer)
        with le1 le2 le4 le5 show ?thesis by linarith
      next
        case n3: False
        then have e3: "?x3 = x"
          by (simp add: e2 str_replace_absent literals_nonempty)
        show ?thesis
        proof (cases "sublist HTTP_LITERAL x")
          case True
          then have "length ?x4 < length ?x3"
            unfolding e3 by (intro str_replace_length_less literals_nonempty literals_longer)
          with le1 le2 le3 le5 show ?thesis by linarith
        next
          case n4: False
          then have e4: "?x4 = x"
            by (simp add: e3 str_replace_absent literals_nonempty)
          from assms n1 n2 n3 n4 have "sublist DIGIT_LITERAL x"
            by (auto simp: cleaning_literals_def)
          then have "length ?x5 < length ?x4"
            unfolding e4 by (intro str_replace_length_less literals_nonempty literals_longer)
          with le1 le2 le3 le4 show ?thesis by linarith
        qed
      qed
    qed
  qed
  then show ?thesis
    by (simp add: clean_comment_def)
qed

lemmas literal_defs = NEWLINE_TOKEN_def TAB_TOKEN_def PUNCT_LITERAL_def HTTP_LITERAL_def
  DIGIT_LITERAL_def

text \<open>
  Claim C1. Cell 9 is five literal replacements applied in order to every comment:
  \<open>NEWLINE_TOKEN\<close> and \<open>TAB_TOKEN\<close> become a space, the text of the punctuation pattern
  becomes a space, the texts \<^verbatim>\<open>http\S+\<close> and \<^verbatim>\<open>[0-9]\<close> are deleted. A replacement
  rewrites every occurrence of its literal: where the literal occurs first, it is replaced
  and the rest of the string is treated in the same way, and a string without the literal
  stays as it is. Nothing is matched as a regular expression, so a comment in which none of
  the five literals occurs comes out as it went in.
\<close>

theorem clean_comments_literal_rules:
  "clean_comments col =
     map (\<lambda>x. str_replace ''[0-9]'' ''''
               (str_replace (''http'' @ [bsl] @ ''S+'') ''''
                 (str_replace
                    (''/[^a-z '' @ [bsl] @ ''d '' @ [squote] @ '' '' @ [bsl] @ ''. '' @ [bsl]
                      @ '', '' @ [dquote] @ '' '' @ [bsl] @ '': '' @ [bsl] @ ''; '' @ [bsl]
                      @ ''? '' @ [bsl] @ ''- '' @ [bsl] @ ''!  '' @ [bsl] @ ''s]/i'') '' ''
                   (str_replace ''TAB_TOKEN'' '' ''
                     (str_replace ''NEWLINE_TOKEN'' '' '' x))))) col
   \<and> (\<forall>old new. old \<noteq> [] \<longrightarrow>
          (\<forall>xs ys. \<not> sublist old (xs @ butlast old)
              \<longrightarrow> str_replace old new (xs @ old @ ys) = xs @ new @ str_replace old new ys)
        \<and> (\<forall>s. \<not> sublist old s \<longrightarrow> str_replace old new s = s))
   \<and> cleaning_literals =
        [''NEWLINE_TOKEN'', ''TAB_TOKEN'',
         ''/[^a-z '' @ [bsl] @ ''d '' @ [squote] @ '' '' @ [bsl] @ ''. '' @ [bsl]
           @ '', '' @ [dquote] @ '' '' @ [bsl] @ '': '' @ [bsl] @ ''; '' @ [bsl]
           @ ''? '' @ [bsl] @ ''- '' @ [bsl] @ ''!  '' @ [bsl] @ ''s]/i'',
         ''http'' @ [bsl] @ ''S+'', ''[0-9]'']
   \<and> (\<forall>i < length col. (\<forall>p \<in> set cleaning_literals. \<not> sublist p (col ! i))
          \<longrightarrow> clean_comments col ! i = col ! i)"
proof -
  have unchanged: "clean_comments col ! i = col ! i"
    if "i < length col" "\<forall>p \<in> set cleaning_literals. \<not> sublist p (col ! i)" for i
    using that by (simp add: clean_comments_map clean_comment_absent)
  have rules: "clean_comments col =
     map (\<lambda>x. str_replace ''[0-9]'' ''''
               (str_replace (''http'' @ [bsl] @ ''S+'') ''''
                 (str_replace
                    (''/[^a-z '' @ [bsl] @ ''d '' @ [squote] @ '' '' @ [bsl] @ ''. '' @ [bsl]
                      @ '', '' @ [dquote] @ '' '' @ [bsl] @ '': '' @ [bsl] @ ''; '' @ [bsl]
                      @ ''? '' @ [bsl] @ ''- '' @ [bsl] @ ''!  '' @ [bsl] @ ''s]/i'') '' ''
                   (str_replace ''TAB_TOKEN'' '' ''
                     (str_replace ''NEWLINE_TOKEN'' '' '' x))))) col"
    unfolding clean_comments_map clean_comment_def NEWLINE_TOKEN_def TAB_TOKEN_def
        DIGIT_LITERAL_def HTTP_LITERAL_def PUNCT_LITERAL_def ..
  have lits: "cleaning_literals =
        [''NEWLINE_TOKEN'', ''TAB_TOKEN'',
         ''/[^a-z '' @ [bsl] @ ''d '' @ [squote] @ '' '' @ [bsl] @ ''. '' @ [bsl]
           @ '', '' @ [dquote] @ '' '' @ [bsl] @ '': '' @ [bsl] @ ''; '' @ [bsl]
           @ ''? '' @ [bsl] @ ''- '' @ [bsl] @ ''!  '' @ [bsl] @ ''s]/i'',
         ''http'' @ [bsl] @ ''S+'', ''[0-9]'']"
    unfolding cleaning_literals_def NEWLINE_TOKEN_def TAB_TOKEN_def
        DIGIT_LITERAL_def HTTP_LITERAL_def PUNCT_LITERAL_def ..
  have sem: "(\<forall>xs ys. \<not> sublist old (xs @ butlast old)
              \<longrightarrow> str_replace old new (xs @ old @ ys) = xs @ new @ str_replace old new ys)
        \<and> (\<forall>s. \<not> sublist old s \<longrightarrow> str_replace old new s = s)"
    if "old \<noteq> []" for old new
    using that by (simp add: str_replace_first str_replace_absent)
  from rules sem lits unchanged show ?thesis by blast
qed

theorem clean_comments_literal_rules_witness:
  "\<not> sublist ''NEWLINE_TOKEN'' (''a'' @ butlast ''NEWLINE_TOKEN'')
   \<and> str_replace ''NEWLINE_TOKEN'' '' '' (''a'' @ ''NEWLINE_TOKEN'' @ ''b'') = ''a b''
   \<and> \<not> (\<exists>p \<in> set cleaning_literals. sublist p ''see http://a.org, 42 times!'')
   \<and> clean_comments [''see http://a.org, 42 times!'', ''aNEWLINE_TOKENbTAB_TOKEN[0-9]c'']
       = [''see http://a.org, 42 times!'', ''a b c'']"
proof -
  let ?col = "[''see http://a.org, 42 times!'', ''aNEWLINE_TOKENbTAB_TOKEN[0-9]c'']"
  note inst = clean_comments_literal_rules [of ?col]
  have h1: "\<not> sublist ''NEWLINE_TOKEN'' (''a'' @ butlast ''NEWLINE_TOKEN'')"
    by (simp add: sublist_Cons_right)
  have h2: "\<not> sublist ''NEWLINE_TOKEN'' ''b''"
    by (simp add: sublist_Cons_right)
  have h3: "\<forall>p \<in> set cleaning_literals. \<not> sublist p (?col ! 0)"
    by (simp add: cleaning_literals_def literal_defs sublist_Cons_right)
  from inst have sem: "\<forall>old new. old \<noteq> [] \<longrightarrow>
          (\<forall>xs ys. \<not> sublist old (xs @ butlast old)
              \<longrightarrow> str_replace old new (xs @ old @ ys) = xs @ new @ str_replace old new ys)
        \<and> (\<forall>s. \<not> sublist old s \<longrightarrow> str_replace old new s = s)"
    by (rule conjunct1 [OF conjunct2])
  from sem h1 have "str_replace ''NEWLINE_TOKEN'' '' '' (''a'' @ ''NEWLINE_TOKEN'' @ ''b'')
      = ''a'' @ '' '' @ str_replace ''NEWLINE_TOKEN'' '' '' ''b''"
    by blast
  moreover from sem h2 have "str_replace ''NEWLINE_TOKEN'' '' '' ''b'' = ''b''"
    by blast
  ultimately have r: "str_replace ''NEWLINE_TOKEN'' '' '' (''a'' @ ''NEWLINE_TOKEN'' @ ''b'') = ''a b''"
    by simp
  from inst have "\<forall>i < length ?col. (\<forall>p \<in> set cleaning_literals. \<not> sublist p (?col ! i))
          \<longrightarrow> clean_comments ?col ! i = ?col ! i"
    by (rule conjunct2 [OF conjunct2 [OF conjunct2]])
  with h3 have u: "clean_comments ?col ! 0 = ?col ! 0"
    by simp
  have c: "clean_comments ?col = [''see http://a.org, 42 times!'', ''a b c'']"
    by (simp add: clean_comments_map clean_comment_def literal_defs)
  from h1 r h3 u c show ?thesis by simp
qed

text \<open>
  Claim C9, as amended. Cleaning a comment twice gives the same string as cleaning it
  once exactly when the once-cleaned string contains none of the five literals. (A
  replacement can join the text around it into a new occurrence, so this is not the case
  for every input.)
\<close>

theorem clean_comment_idempotent_iff:
  "clean_comment (clean_comment x) = clean_comment x
     \<longleftrightarrow> (\<forall>p \<in> set cleaning_literals. \<not> sublist p (clean_comment x))"
proof
  assume eq: "clean_comment (clean_comment x) = clean_comment x"
  show "\<forall>p \<in> set cleaning_literals. \<not> sublist p (clean_comment x)"
  proof (rule ccontr)
    assume "\<not> (\<forall>p \<in> set cleaning_literals. \<not> sublist p (clean_comment x))"
    then have "\<exists>p \<in> set cleaning_literals. sublist p (clean_comment x)" by blast
    then have "length (clean_comment (clean_comment x)) < length (clean_comment x)"
      by (rule clean_comment_present)
    with eq show False by simp
  qed
next
  assume "\<forall>p \<in> set cleaning_literals. \<not> sublist p (clean_comment x)"
  then show "clean_comment (clean_comment x) = clean_comment x"
    by (rule clean_comment_absent)
qed

theorem clean_comment_idempotent_iff_witness:
  "\<not> (\<exists>p \<in> set cleaning_literals. sublist p (clean_comment ''aNEWLINE_TOKENb http://c 7''))
   \<and> clean_comment ''aNEWLINE_TOKENb http://c 7'' = ''a b http://c 7''
   \<and> clean_comment (clean_comment ''aNEWLINE_TOKENb http://c 7'')
       = clean_comment ''aNEWLINE_TOKENb http://c 7''"
proof -
  have e: "clean_comment ''aNEWLINE_TOKENb http://c 7'' = ''a b http://c 7''"
    by (simp add: clean_comment_def literal_defs)
  have h: "\<forall>p \<in> set cleaning_literals. \<not> sublist p (clean_comment ''aNEWLINE_TOKENb http://c 7'')"
    unfolding e by (simp add: cleaning_literals_def literal_defs sublist_Cons_right)
  with clean_comment_idempotent_iff [of "''aNEWLINE_TOKENb http://c 7''"] e
  show ?thesis by blast
qed

text \<open>
  The cleaning is not idempotent: deleting the inner \<^verbatim>\<open>[0-9]\<close> of
  \<^verbatim>\<open>[0-[0-9]9]\<close> leaves \<^verbatim>\<open>[0-9]\<close>, which a second cleaning deletes.
\<close>

theorem clean_comment_not_idempotent:
  "clean_comment (clean_comment ''[0-[0-9]9]'') \<noteq> clean_comment ''[0-[0-9]9]''"
  by (simp add: clean_comment_def literal_defs)

text \<open>
  Claim C5. The corpus comments of cell 24 get the two token rules only, the training
  comments of cell 9 all five rules: on a comment that contains the text \<^verbatim>\<open>[0-9]\<close>
  the two cleanings give different strings.
\<close>

theorem corpus_cleaning_differs:
  "clean_corpus [''regex [0-9] here''] = [''regex [0-9] here'']
   \<and> clean_comments [''regex [0-9] here''] = [''regex  here'']"
  by (simp add: clean_corpus_map clean_comments_map clean_comment_def literal_defs)

section \<open>The majority label\<close>




section \<open>The corpus sample\<close>

lemma load_chunks_kept:
  "load_chunks env data_dir prob files dfs g = Inr (dfs', g')
     \<Longrightarrow> (\<forall>df \<in> set dfs. \<forall>r \<in> set df. cr_bot r = 0 \<and> cr_admin r = 0 \<and> cr_include r = Some 1)
     \<Longrightarrow> (\<forall>df \<in> set dfs'. \<forall>r \<in> set df. cr_bot r = 0 \<and> cr_admin r = 0 \<and> cr_include r = Some 1)"
proof (induction files arbitrary: dfs g)
  case Nil
  then show ?case by simp
next
  case (Cons filename rest)
  show ?case
  proof (cases "re_match_chunk filename")
    case False
    with Cons.prems(1) have "load_chunks env data_dir prob rest dfs g = Inr (dfs', g')"
      by simp
    from Cons.IH [OF this Cons.prems(2)] show ?thesis .
  next
    case True
    with Cons.prems(1) obtain df draws g1 where
      rd: "read_csv env (os_path_join data_dir filename) = Some df" and
      rv: "bernoulli_rvs env prob (length df) g = (draws, g1)" and
      ln: "length draws = length df" and
      rec: "load_chunks env data_dir prob rest
              (dfs @ [filter (\<lambda>r. cr_bot r = 0 \<and> cr_admin r = 0 \<and> cr_include r = Some 1)
                 (map (\<lambda>(r, d). r\<lparr>cr_include := Some d\<rparr>) (zip df draws))]) g1 = Inr (dfs', g')"
      by (auto split: option.splits prod.splits if_splits)
    have "\<forall>df \<in> set (dfs @ [filter (\<lambda>r. cr_bot r = 0 \<and> cr_admin r = 0 \<and> cr_include r = Some 1)
                 (map (\<lambda>(r, d). r\<lparr>cr_include := Some d\<rparr>) (zip df draws))]).
            \<forall>r \<in> set df. cr_bot r = 0 \<and> cr_admin r = 0 \<and> cr_include r = Some 1"
      using Cons.prems(2) by auto
    from Cons.IH [OF rec this] show ?thesis .
  qed
qed

text \<open>
  Claim C8. Every row of the sample that \<^verbatim>\<open>load_no_bot_no_admin(ns, year, prob)\<close>
  returns has \<^verbatim>\<open>bot == 0\<close>, \<^verbatim>\<open>admin == 0\<close> and \<^verbatim>\<open>include == 1\<close>, its \<^verbatim>\<open>ns\<close> column
  is the argument \<open>ns\<close> and its \<^verbatim>\<open>year\<close> column the argument \<open>year\<close>; a row that fails
  the filter is not in the sample.
\<close>

theorem load_no_bot_no_admin_rows:
  assumes "load_no_bot_no_admin env ns year prob g = Inr (sample, g')"
  shows "\<forall>r \<in> set sample. cr_bot r = 0 \<and> cr_admin r = 0 \<and> cr_include r = Some 1
            \<and> cr_ns r = Some ns \<and> cr_year r = Some year"
proof -
  from assms obtain dfs where
    lc: "load_chunks env (data_dir_of ns year) prob
           (concat (os_walk env (data_dir_of ns year))) [] g = Inr (dfs, g')" and
    sm: "sample = map (\<lambda>r. r\<lparr>cr_year := Some year\<rparr>)
           (map (\<lambda>r. r\<lparr>cr_ns := Some ns\<rparr>) (concat dfs))"
    by (auto simp: load_no_bot_no_admin_def Let_def split: sum.splits prod.splits if_splits)
  from load_chunks_kept [OF lc]
  have "\<forall>df \<in> set dfs. \<forall>r \<in> set df. cr_bot r = 0 \<and> cr_admin r = 0 \<and> cr_include r = Some 1"
    by simp
  then show ?thesis
    unfolding sm by auto
qed

theorem load_no_bot_no_admin_rows_witness:
  "load_no_bot_no_admin demo_env ''user'' 2004 0.1 0
      = Inr ([\<lparr>cr_rev_id = 1, cr_comment = ''hi'', cr_bot = 0, cr_admin = 0,
                cr_include = Some 1, cr_ns = Some ''user'', cr_year = Some 2004,
                cr_attack = None\<rparr>], 3)
   \<and> list_all (\<lambda>r. cr_bot r = 0 \<and> cr_admin r = 0 \<and> cr_include r = Some 1
                 \<and> cr_ns r = Some ''user'' \<and> cr_year r = Some 2004)
        (fst (projr (load_no_bot_no_admin demo_env ''user'' 2004 0.1 0)))"
proof -
  have e: "load_no_bot_no_admin demo_env ''user'' 2004 0.1 0
      = Inr ([\<lparr>cr_rev_id = 1, cr_comment = ''hi'', cr_bot = 0, cr_admin = 0,
                cr_include = Some 1, cr_ns = Some ''user'', cr_year = Some 2004,
                cr_attack = None\<rparr>], 3)"
    by (simp add: load_no_bot_no_admin_def data_dir_of_def format_d_def nat_digits.simps
        demo_env_def re_match_chunk_def match_dot_tsv_def is_digit_def os_path_join_def upt_rec)
  from load_no_bot_no_admin_rows [OF e] e show ?thesis
    by (simp add: list_all_iff)
qed

section \<open>Bag of words\<close>

lemma count_vectorizer_bag:
  "mset (stemmed_words L d1) = mset (stemmed_words L d2)
     \<Longrightarrow> count_vectorizer_transform L P d1 = count_vectorizer_transform L P d2"
proof -
  assume "mset (stemmed_words L d1) = mset (stemmed_words L d2)"
  then have "count (mset (stemmed_words L d1)) t = count (mset (stemmed_words L d2)) t" for t
    by simp
  then have "count_list (stemmed_words L d1) t = count_list (stemmed_words L d2) t" for t
    by (simp add: count_mset)
  then show ?thesis
    by (simp add: count_vectorizer_transform_def)
qed

text \<open>
  Claim C3. Two comments whose stemmed token sequences have the same tokens with the
  same multiplicities get the same count vector from the vectorizer, hence the same
  features, the same predicted label and the same predicted probabilities, whatever the
  fitted vocabulary, tf-idf weights and final classifier are.
\<close>

theorem bag_of_words:
  assumes "mset (stemmed_words L d1) = mset (stemmed_words L d2)"
  shows "count_vectorizer_transform L P d1 = count_vectorizer_transform L P d2
       \<and> pipeline_features L P d1 = pipeline_features L P d2
       \<and> pipeline_predict L P [d1] = pipeline_predict L P [d2]
       \<and> pipeline_predict_proba L P [d1] = pipeline_predict_proba L P [d2]"
proof -
  have cv: "count_vectorizer_transform L P d1 = count_vectorizer_transform L P d2"
    using assms by (rule count_vectorizer_bag)
  then have ft: "pipeline_features L P d1 = pipeline_features L P d2"
    by (simp add: pipeline_features_def)
  then have "pipeline_predict L P [d1] = pipeline_predict L P [d2]"
    and "pipeline_predict_proba L P [d1] = pipeline_predict_proba L P [d2]"
    by (simp_all add: pipeline_predict_def pipeline_predict_proba_def split: option.splits)
  with cv ft show ?thesis by simp
qed

lemma demo_features:
  "pipeline_features demo_text_lib demo_pipeline ''you are idiots'' = [1, 0]"
  "pipeline_features demo_text_lib demo_pipeline ''so so'' = [0, 1]"
  "pipeline_features demo_text_lib demo_pipeline '' thanks'' = [0, 0]"
  by (simp_all add: pipeline_features_def tfidf_transform_def count_vectorizer_transform_def
      stemmed_words_def demo_text_lib_def demo_pipeline_def)

theorem bag_of_words_witness:
  "mset (stemmed_words demo_text_lib ''you are idiots'')
     = mset (stemmed_words demo_text_lib ''idiots are you'')
   \<and> stemmed_words demo_text_lib ''you are idiots''
       \<noteq> stemmed_words demo_text_lib ''idiots are you''
   \<and> pipeline_features demo_text_lib demo_pipeline ''idiots are you'' = [1, 0]
   \<and> pipeline_predict demo_text_lib demo_pipeline [''idiots are you'']
       = pipeline_predict demo_text_lib demo_pipeline [''you are idiots'']"
proof -
  have h: "mset (stemmed_words demo_text_lib ''you are idiots'')
     = mset (stemmed_words demo_text_lib ''idiots are you'')"
    by (simp add: stemmed_words_def demo_text_lib_def)
  have n: "stemmed_words demo_text_lib ''you are idiots''
       \<noteq> stemmed_words demo_text_lib ''idiots are you''"
    by (simp add: stemmed_words_def demo_text_lib_def)
  from bag_of_words [OF h, of demo_pipeline] demo_features(1) h n
  show ?thesis by simp
qed

section \<open>Threshold and prevalence\<close>

lemma sum_indicator:
  "sum_list (map (\<lambda>r. if P r then 1 else (0::real)) xs) = real (length (filter P xs))"
  by (induction xs) auto

lemma apply_model_rows:
  assumes "apply_model L clf corpus = Inr corpus'"
  obtains proba where "clf_predict_proba clf = Some proba"
    and "corpus' = map (\<lambda>r. r\<lparr>cr_comment := str_replace TAB_TOKEN '' '' (str_replace NEWLINE_TOKEN '' '' (cr_comment r)),
                 cr_attack := Some (snd (proba (pipeline_features L clf (str_replace TAB_TOKEN '' '' (str_replace NEWLINE_TOKEN '' '' (cr_comment r))))) > 0.425)\<rparr>) corpus"
proof -
  from assms obtain proba where p: "clf_predict_proba clf = Some proba"
    by (auto simp: apply_model_def pipeline_predict_proba_def Let_def split: option.splits)
  have z: "map f (zip xs (map g xs)) = map (\<lambda>x. f (x, g x)) xs" for f :: "'a \<times> 'b \<Rightarrow> 'c" and g xs
    by (induction xs) auto
  from assms p have "corpus' = map (\<lambda>r. r\<lparr>cr_comment := str_replace TAB_TOKEN '' '' (str_replace NEWLINE_TOKEN '' '' (cr_comment r)),
                 cr_attack := Some (snd (proba (pipeline_features L clf (str_replace TAB_TOKEN '' '' (str_replace NEWLINE_TOKEN '' '' (cr_comment r))))) > 0.425)\<rparr>) corpus"
    by (simp add: apply_model_def pipeline_predict_proba_def Let_def clean_corpus_map z comp_def)
  with p that show ?thesis by blast
qed

lemma attack_fraction_count:
  assumes "\<forall>r \<in> set corpus. cr_attack r \<noteq> None" and "\<exists>r \<in> set corpus. cr_ns r = Some ns"
  shows "attack_fraction corpus ns =
     Some (real (length (filter (\<lambda>r. cr_ns r = Some ns \<and> cr_attack r = Some True) corpus))
           / real (length (filter (\<lambda>r. cr_ns r = Some ns) corpus)))"
proof -
  let ?rows = "filter (\<lambda>r. cr_ns r = Some ns \<and> cr_attack r \<noteq> None) corpus"
  from assms(1) have rows: "?rows = filter (\<lambda>r. cr_ns r = Some ns) corpus"
    by (intro filter_cong) auto
  from assms(2) have ne: "filter (\<lambda>r. cr_ns r = Some ns) corpus \<noteq> []"
    by (simp add: filter_empty_conv)
  have "sum_list (map (\<lambda>r. if cr_attack r = Some True then 1 else (0::real)) ?rows)
      = real (length (filter (\<lambda>r. cr_attack r = Some True) ?rows))"
    by (rule sum_indicator)
  also have "filter (\<lambda>r. cr_attack r = Some True) ?rows
      = filter (\<lambda>r. cr_ns r = Some ns \<and> cr_attack r = Some True) corpus"
    unfolding rows by (simp add: conj_commute)
  finally have "sum_list (map (\<lambda>r. if cr_attack r = Some True then 1 else (0::real)) ?rows)
      = real (length (filter (\<lambda>r. cr_ns r = Some ns \<and> cr_attack r = Some True) corpus))" .
  moreover have "length ?rows = length (filter (\<lambda>r. cr_ns r = Some ns) corpus)"
    by (simp only: rows)
  moreover have "?rows \<noteq> []"
    unfolding rows by (rule ne)
  ultimately show ?thesis
    by (simp add: attack_fraction_def mean_def Let_def)
qed

text \<open>
  Claim C2. When cell 24 succeeds, the classifier has been applied to every row of the
  sampled corpus (to its comment after the two token replacements), a row is marked as an
  attack exactly when the predicted probability of the attack class for it is strictly
  greater than 0.425, and the value plotted for a namespace is the number of its rows so
  marked divided by the number of its rows.
\<close>

theorem attack_threshold_prevalence:
  assumes "apply_model L clf corpus = Inr corpus'"
  shows "\<exists>proba. clf_predict_proba clf = Some proba
       \<and> length corpus' = length corpus
       \<and> (\<forall>i < length corpus.
             cr_comment (corpus' ! i)
               = str_replace TAB_TOKEN '' '' (str_replace NEWLINE_TOKEN '' '' (cr_comment (corpus ! i)))
           \<and> cr_ns (corpus' ! i) = cr_ns (corpus ! i)
           \<and> cr_attack (corpus' ! i)
               = Some (0.425 < snd (proba (pipeline_features L clf (cr_comment (corpus' ! i))))))
       \<and> (\<forall>ns. (\<exists>r \<in> set corpus'. cr_ns r = Some ns) \<longrightarrow>
             attack_fraction corpus' ns =
               Some (real (length (filter (\<lambda>r. cr_ns r = Some ns \<and> cr_attack r = Some True) corpus'))
                     / real (length (filter (\<lambda>r. cr_ns r = Some ns) corpus'))))"
proof -
  from assms obtain proba where p: "clf_predict_proba clf = Some proba"
    and c: "corpus' = map (\<lambda>r. r\<lparr>cr_comment := str_replace TAB_TOKEN '' '' (str_replace NEWLINE_TOKEN '' '' (cr_comment r)),
                 cr_attack := Some (snd (proba (pipeline_features L clf (str_replace TAB_TOKEN '' '' (str_replace NEWLINE_TOKEN '' '' (cr_comment r))))) > 0.425)\<rparr>) corpus"
    by (rule apply_model_rows)
  have len: "length corpus' = length corpus"
    by (simp add: c)
  have rows: "cr_comment (corpus' ! i)
               = str_replace TAB_TOKEN '' '' (str_replace NEWLINE_TOKEN '' '' (cr_comment (corpus ! i)))
           \<and> cr_ns (corpus' ! i) = cr_ns (corpus ! i)
           \<and> cr_attack (corpus' ! i)
               = Some (0.425 < snd (proba (pipeline_features L clf (cr_comment (corpus' ! i)))))"
    if "i < length corpus" for i
    using that by (simp add: c)
  have "\<forall>r \<in> set corpus'. cr_attack r \<noteq> None"
    by (auto simp: c)
  then have frac: "attack_fraction corpus' ns =
               Some (real (length (filter (\<lambda>r. cr_ns r = Some ns \<and> cr_attack r = Some True) corpus'))
                     / real (length (filter (\<lambda>r. cr_ns r = Some ns) corpus')))"
    if "\<exists>r \<in> set corpus'. cr_ns r = Some ns" for ns
    using that by (rule attack_fraction_count)
  from p len rows frac show ?thesis by blast
qed

lemma demo_apply:
  "apply_model demo_text_lib demo_pipeline demo_corpus =
     Inr [\<lparr>cr_rev_id = 1, cr_comment = ''you are idiots'', cr_bot = 0, cr_admin = 0,
       cr_include = Some 1, cr_ns = Some ''user'', cr_year = Some 2004, cr_attack = Some True\<rparr>,
      \<lparr>cr_rev_id = 2, cr_comment = ''so so'', cr_bot = 0, cr_admin = 0,
       cr_include = Some 1, cr_ns = Some ''user'', cr_year = Some 2004, cr_attack = Some False\<rparr>,
      \<lparr>cr_rev_id = 3, cr_comment = '' thanks'', cr_bot = 0, cr_admin = 0,
       cr_include = Some 1, cr_ns = Some ''article'', cr_year = Some 2004, cr_attack = Some False\<rparr>]"
proof -
  have c: "clean_corpus (map cr_comment demo_corpus) = [''you are idiots'', ''so so'', '' thanks'']"
    by (simp add: clean_corpus_map demo_corpus_def NEWLINE_TOKEN_def TAB_TOKEN_def)
  have p: "clf_predict_proba demo_pipeline =
      Some (\<lambda>v. (1 - (0.9 * v ! 0 + 0.425 * v ! 1), 0.9 * v ! 0 + 0.425 * v ! 1))"
    by (simp add: demo_pipeline_def)
  show ?thesis
    unfolding apply_model_def c pipeline_predict_proba_def p
    by (simp add: demo_corpus_def demo_features)
qed

theorem attack_threshold_prevalence_witness:
  "apply_model demo_text_lib demo_pipeline demo_corpus \<noteq> Inl AttributeError
   \<and> map cr_attack (projr (apply_model demo_text_lib demo_pipeline demo_corpus))
       = [Some True, Some False, Some False]
   \<and> attack_fraction (projr (apply_model demo_text_lib demo_pipeline demo_corpus)) ''user''
       = Some (1 / 2)
   \<and> attack_fraction (projr (apply_model demo_text_lib demo_pipeline demo_corpus)) ''article''
       = Some 0"
proof -
  let ?out = "[\<lparr>cr_rev_id = 1, cr_comment = ''you are idiots'', cr_bot = 0, cr_admin = 0,
       cr_include = Some 1, cr_ns = Some ''user'', cr_year = Some 2004, cr_attack = Some True\<rparr>,
      \<lparr>cr_rev_id = 2, cr_comment = ''so so'', cr_bot = 0, cr_admin = 0,
       cr_include = Some 1, cr_ns = Some ''user'', cr_year = Some 2004, cr_attack = Some False\<rparr>,
      \<lparr>cr_rev_id = 3, cr_comment = '' thanks'', cr_bot = 0, cr_admin = 0,
       cr_include = Some 1, cr_ns = Some ''article'', cr_year = Some 2004, cr_attack = Some False\<rparr>]"
  have e: "apply_model demo_text_lib demo_pipeline demo_corpus = Inr ?out"
    by (rule demo_apply)
  from attack_threshold_prevalence [OF e]
  have frac: "(\<exists>r \<in> set ?out. cr_ns r = Some ns) \<longrightarrow>
      attack_fraction ?out ns =
        Some (real (length (filter (\<lambda>r. cr_ns r = Some ns \<and> cr_attack r = Some True) ?out))
              / real (length (filter (\<lambda>r. cr_ns r = Some ns) ?out)))" for ns
    by blast
  from frac [of "''user''"] have u: "attack_fraction ?out ''user'' = Some (1 / 2)"
    by simp
  from frac [of "''article''"] have a: "attack_fraction ?out ''article'' = Some 0"
    by simp
  from u a show ?thesis
    unfolding e by simp
qed

section \<open>The five comparison runs\<close>

text \<open>
  Claim C4, as amended. The five runs select the training and test rows in the same way,
  fit a pipeline with the same vectorizer and tf-idf settings, and compute the predicted
  labels, precision, recall, F-score, support and the confusion matrix in the same way.
  They differ in the final classifier stage and in the model output given to
  \<^verbatim>\<open>roc_auc_score\<close>: the logistic-regression and random-forest runs give it the
  predicted probabilities of the attack class, the linear-SVC run (a classifier without
  probabilities) the predicted labels, and each of the remaining two runs one of these
  two outputs.
\<close>

theorem comparison_runs:
  "cell11 = comparison_run Predict_proba (LogisticRegression ''l2'' False)
   \<and> cell12 = comparison_run Predict_proba (RandomForestClassifier 200 100 1)
   \<and> cell13 = comparison_run Predict (LinearSVC 1.0 ''squared_hinge'' 1000 0.0001 0)
   \<and> (\<exists>src. cell14 = comparison_run src MultinomialNB)
   \<and> (\<exists>src. cell15 = comparison_run src MLPClassifier)"
proof -
  have "cell11 sk L comments
      = comparison_run Predict_proba (LogisticRegression ''l2'' False) sk L comments"
    for sk L comments
    by (simp add: cell11_def comparison_run_def auc_scores_def count_vectorizer_def Let_def
        bind_err_def split: sum.splits)
  then have c11: "cell11 = comparison_run Predict_proba (LogisticRegression ''l2'' False)"
    by (intro ext)
  have "cell12 sk L comments
      = comparison_run Predict_proba (RandomForestClassifier 200 100 1) sk L comments"
    for sk L comments
    by (simp add: cell12_def comparison_run_def auc_scores_def count_vectorizer_def Let_def
        bind_err_def split: sum.splits)
  then have c12: "cell12 = comparison_run Predict_proba (RandomForestClassifier 200 100 1)"
    by (intro ext)
  have "cell13 sk L comments
      = comparison_run Predict (LinearSVC 1.0 ''squared_hinge'' 1000 0.0001 0) sk L comments"
    for sk L comments
    by (simp add: cell13_def comparison_run_def auc_scores_def count_vectorizer_def Let_def
        bind_err_def split: sum.splits)
  then have c13: "cell13 = comparison_run Predict (LinearSVC 1.0 ''squared_hinge'' 1000 0.0001 0)"
    by (intro ext)
  have "cell14 sk L comments = comparison_run Predict MultinomialNB sk L comments"
    for sk L comments
    by (simp add: cell14_def comparison_run_def auc_scores_def count_vectorizer_def Let_def
        bind_err_def split: sum.splits)
  then have c14: "cell14 = comparison_run Predict MultinomialNB"
    by (intro ext)
  have "cell15 sk L comments = comparison_run Predict MLPClassifier sk L comments"
    for sk L comments
    by (simp add: cell15_def comparison_run_def auc_scores_def count_vectorizer_def Let_def
        bind_err_def split: sum.splits)
  then have c15: "cell15 = comparison_run Predict MLPClassifier"
    by (intro ext)
  from c11 c12 c13 c14 c15 show ?thesis by blast
qed

subsection \<open>A run on a small frame\<close>

lemma demo_split:
  "map c_comment (query_split ''train'' demo_comments) = [''idiots'', ''thanks'']"
  "map c_attack (query_split ''train'' demo_comments) = [Some True, Some False]"
  "map c_comment (query_split ''test'' demo_comments)
     = [''idiots'', ''thanks thanks idiots'', ''thanks'']"
  "map c_attack (query_split ''test'' demo_comments) = [Some True, Some True, Some False]"
  by (simp_all add: query_split_def demo_comments_def)

lemma demo_stems:
  "stemmed_words demo_text_lib ''idiots'' = [''idiot'']"
  "stemmed_words demo_text_lib ''thanks'' = [''thank'']"
  "stemmed_words demo_text_lib ''thanks thanks idiots'' = [''thank'', ''thank'', ''idiot'']"
  by (simp_all add: stemmed_words_def demo_text_lib_def)

lemma demo_two_classes:
  "two_classes [Some True, Some False]" "two_classes [Some True, Some True, Some False]"
  by (simp_all add: two_classes_def)

lemma demo_fit_lr:
  "demo_fit \<lparr>vect = count_vectorizer demo_text_lib, tfidf_norm = n,
             clf_stage = LogisticRegression a b\<rparr> [''idiots'', ''thanks''] [Some True, Some False]
     = Inr (linear_model [[''idiot''], [''thank'']] [Some True, Some False] 10000 True)"
  by (simp add: demo_fit_def count_vectorizer_def demo_stems demo_two_classes)

lemma demo_fit_svc:
  "demo_fit \<lparr>vect = count_vectorizer demo_text_lib, tfidf_norm = n,
             clf_stage = LinearSVC c l m t r\<rparr> [''idiots'', ''thanks''] [Some True, Some False]
     = Inr (linear_model [[''idiot''], [''thank'']] [Some True, Some False] 10000 False)"
  by (simp add: demo_fit_def count_vectorizer_def demo_stems demo_two_classes)

lemma demo_model:
  "vocabulary (linear_model [[''idiot''], [''thank'']] [Some True, Some False] 10000 p)
     = [''idiot'', ''thank'']"
  "idf (linear_model [[''idiot''], [''thank'']] [Some True, Some False] 10000 p)
     = [ln (3 / 2) + 1, ln (3 / 2) + 1]"
  "clf_predict (linear_model [[''idiot''], [''thank'']] [Some True, Some False] 10000 p) x
     = (dot [1, - 1] x > 0)"
  "clf_predict_proba (linear_model [[''idiot''], [''thank'']] [Some True, Some False] 10000 True)
     = Some (\<lambda>x. (1 - sigmoid (dot [1, - 1] x), sigmoid (dot [1, - 1] x)))"
  "clf_predict_proba (linear_model [[''idiot''], [''thank'']] [Some True, Some False] 10000 False)
     = None"
  by (simp_all add: linear_model_def doc_frequency_def Let_def)

lemma tfidf_two_terms:
  assumes "idf P = [i, i]" and "0 < i" and "a \<noteq> 0 \<or> b \<noteq> 0"
  shows "tfidf_transform P [a, b] = [a / sqrt (a * a + b * b), b / sqrt (a * a + b * b)]"
proof -
  have pos: "0 < a * a + b * b"
    using assms(3) by (metis add_pos_nonneg add_nonneg_pos zero_le_square mult_eq_0_iff
        less_eq_real_def not_less)
  have "a * i * (a * i) + b * i * (b * i) = (a * a + b * b) * (i * i)"
    by (simp add: algebra_simps)
  then have n: "sqrt (a * i * (a * i) + b * i * (b * i)) = sqrt (a * a + b * b) * i"
    using assms(2) by (simp add: real_sqrt_mult)
  have nz: "sqrt (a * a + b * b) * i \<noteq> 0"
    using pos assms(2,3) by simp
  show ?thesis
    using nz assms(2) by (simp add: tfidf_transform_def assms(1) Let_def n)
qed

lemma ln_idf_pos: "0 < ln (3 / 2) + (1::real)"
proof -
  have "0 < ln (3 / 2 :: real)" by (rule ln_gt_zero) simp
  then show ?thesis by linarith
qed

lemma demo_model_features:
  "pipeline_features demo_text_lib
     (linear_model [[''idiot''], [''thank'']] [Some True, Some False] 10000 p) ''idiots'' = [1, 0]"
  "pipeline_features demo_text_lib
     (linear_model [[''idiot''], [''thank'']] [Some True, Some False] 10000 p) ''thanks'' = [0, 1]"
  "pipeline_features demo_text_lib
     (linear_model [[''idiot''], [''thank'']] [Some True, Some False] 10000 p)
     ''thanks thanks idiots'' = [1 / sqrt 5, 2 / sqrt 5]"
proof -
  let ?P = "linear_model [[''idiot''], [''thank'']] [Some True, Some False] 10000 p"
  have c: "count_vectorizer_transform demo_text_lib ?P ''idiots'' = [1, 0]"
    "count_vectorizer_transform demo_text_lib ?P ''thanks'' = [0, 1]"
    "count_vectorizer_transform demo_text_lib ?P ''thanks thanks idiots'' = [1, 2]"
    by (simp_all add: count_vectorizer_transform_def demo_model demo_stems)
  have t: "a \<noteq> 0 \<or> b \<noteq> 0 \<Longrightarrow> tfidf_transform ?P [a, b]
      = [a / sqrt (a * a + b * b), b / sqrt (a * a + b * b)]" for a b
    by (rule tfidf_two_terms [OF demo_model(2) ln_idf_pos])
  show "pipeline_features demo_text_lib ?P ''idiots'' = [1, 0]"
    unfolding pipeline_features_def c by (subst t) simp_all
  show "pipeline_features demo_text_lib ?P ''thanks'' = [0, 1]"
    unfolding pipeline_features_def c by (subst t) simp_all
  show "pipeline_features demo_text_lib ?P ''thanks thanks idiots'' = [1 / sqrt 5, 2 / sqrt 5]"
    unfolding pipeline_features_def c by (subst t) simp_all
qed

lemma demo_scores:
  "dot [1, - 1] [1, 0] = 1" "dot [1, - 1] [0, 1] = - 1"
  "dot [1, - 1] [1 / sqrt 5, 2 / sqrt 5] = - (1 / sqrt 5)"
  by (simp_all add: dot_def)

lemma demo_model_predict:
  "pipeline_predict demo_text_lib
     (linear_model [[''idiot''], [''thank'']] [Some True, Some False] 10000 p)
     [''idiots'', ''thanks thanks idiots'', ''thanks''] = [True, False, False]"
  by (simp add: pipeline_predict_def demo_model_features demo_model(3) demo_scores)

lemma demo_model_proba:
  "pipeline_predict_proba demo_text_lib
     (linear_model [[''idiot''], [''thank'']] [Some True, Some False] 10000 True)
     [''idiots'', ''thanks thanks idiots'', ''thanks'']
     = Inr [(1 - sigmoid 1, sigmoid 1),
            (1 - sigmoid (- (1 / sqrt 5)), sigmoid (- (1 / sqrt 5))),
            (1 - sigmoid (- 1), sigmoid (- 1))]"
  by (simp add: pipeline_predict_proba_def demo_model(4) demo_model_features demo_scores)

lemma demo_model_no_proba:
  "pipeline_predict_proba demo_text_lib
     (linear_model [[''idiot''], [''thank'']] [Some True, Some False] 10000 False) docs
     = Inl AttributeError"
  by (simp add: pipeline_predict_proba_def demo_model(5))

lemma sigmoid_strict_mono: "x < y \<Longrightarrow> sigmoid x < sigmoid y"
proof -
  assume "x < y"
  then have "exp (- y) < exp (- x)" by simp
  then have "1 + exp (- y) < 1 + exp (- x)" by simp
  moreover have "0 < 1 + exp (- y)" by (simp add: add_pos_pos)
  ultimately show ?thesis
    unfolding sigmoid_def by (simp add: frac_less2)
qed

lemma demo_order:
  "sigmoid (- 1) < sigmoid 1" "sigmoid (- 1) < sigmoid (- (1 / sqrt 5))"
proof -
  show "sigmoid (- 1) < sigmoid 1"
    by (rule sigmoid_strict_mono) simp
  have "1 < sqrt 5" by (simp add: real_less_rsqrt)
  then have "1 / sqrt 5 < 1" by simp
  then show "sigmoid (- 1) < sigmoid (- (1 / sqrt 5))"
    by (intro sigmoid_strict_mono) simp
qed

lemma demo_auc_proba:
  "pairwise_auc [Some True, Some True, Some False]
     [sigmoid 1, sigmoid (- (1 / sqrt 5)), sigmoid (- 1)] = 1"
  using demo_order by (simp add: pairwise_auc_def)

lemma demo_auc_labels:
  "pairwise_auc [Some True, Some True, Some False] (bool_scores [True, False, False]) = 3 / 4"
  by (simp add: pairwise_auc_def bool_scores_def)

lemma demo_metrics_ok:
  "\<exists>v. demo_precision_recall_fscore_support [Some True, Some True, Some False] ps = Inr v"
  "\<exists>v. demo_confusion_matrix [Some True, Some True, Some False] ps = Inr v"
  by (simp_all add: demo_precision_recall_fscore_support_def demo_confusion_matrix_def Let_def)

lemma demo_lib:
  "pipeline_fit demo_sklearn = demo_fit"
  "roc_auc_score demo_sklearn = demo_roc_auc_score"
  "precision_recall_fscore_support demo_sklearn = demo_precision_recall_fscore_support"
  "confusion_matrix demo_sklearn = demo_confusion_matrix"
  by (simp_all add: demo_sklearn_def)

lemma demo_cell11_auc:
  "map_sum id auc (cell11 demo_sklearn demo_text_lib demo_comments) = Inr 1"
proof -
  obtain v1 v2 where
    "demo_precision_recall_fscore_support [Some True, Some True, Some False]
       [True, False, False] = Inr v1"
    "demo_confusion_matrix [Some True, Some True, Some False] [True, False, False] = Inr v2"
    using demo_metrics_ok by blast
  then show ?thesis
    unfolding cell11_def Let_def demo_split demo_lib demo_fit_lr
    by (simp add: bind_err_def demo_model_proba demo_model_predict demo_roc_auc_score_def
        demo_two_classes demo_auc_proba)
qed

lemma demo_labels_auc:
  "map_sum id auc (comparison_run Predict (LogisticRegression ''l2'' False)
     demo_sklearn demo_text_lib demo_comments) = Inr (3 / 4)"
proof -
  obtain v1 v2 where
    "demo_precision_recall_fscore_support [Some True, Some True, Some False]
       [True, False, False] = Inr v1"
    "demo_confusion_matrix [Some True, Some True, Some False] [True, False, False] = Inr v2"
    using demo_metrics_ok by blast
  then show ?thesis
    unfolding comparison_run_def Let_def demo_split demo_lib
      count_vectorizer_def [symmetric] demo_fit_lr
    by (simp add: bind_err_def auc_scores_def demo_model_predict demo_roc_auc_score_def
        demo_two_classes demo_auc_labels)
qed

lemma demo_cell13_auc:
  "map_sum id auc (cell13 demo_sklearn demo_text_lib demo_comments) = Inr (3 / 4)"
proof -
  obtain v1 v2 where
    "demo_precision_recall_fscore_support [Some True, Some True, Some False]
       [True, False, False] = Inr v1"
    "demo_confusion_matrix [Some True, Some True, Some False] [True, False, False] = Inr v2"
    using demo_metrics_ok by blast
  then show ?thesis
    unfolding cell13_def Let_def demo_split demo_lib demo_fit_svc
    by (simp add: bind_err_def demo_model_predict demo_roc_auc_score_def
        demo_two_classes demo_auc_labels)
qed

lemma demo_proba_run_svc:
  "comparison_run Predict_proba (LinearSVC 1.0 ''squared_hinge'' 1000 0.0001 0)
     demo_sklearn demo_text_lib demo_comments = Inl AttributeError"
  unfolding comparison_run_def Let_def demo_split demo_lib
    count_vectorizer_def [symmetric] demo_fit_svc
  by (simp add: bind_err_def auc_scores_def demo_model_no_proba)

text \<open>
  The runs do not differ in the classifier stage only. The frame has the training
  comments \<^verbatim>\<open>idiots\<close> (an attack) and \<^verbatim>\<open>thanks\<close> (none), and the test comments
  \<^verbatim>\<open>idiots\<close> and \<^verbatim>\<open>thanks thanks idiots\<close> (attacks) and \<^verbatim>\<open>thanks\<close> (none). The
  fitted model scores them 1, \<open>- 1 / sqrt 5\<close> and \<open>- 1\<close>: the predicted labels are
  \<open>True\<close>, \<open>False\<close>, \<open>False\<close>, and the probabilities of the two attacks both lie above
  that of the third comment. The steps of cell 11 with the linear SVC in place of the
  logistic regression raise (no \<^verbatim>\<open>predict_proba\<close>), while cell 13 returns an AUC of
  3/4; and the steps of cell 13 with the logistic regression in place of the linear SVC
  give an AUC of 3/4, while cell 11 gives 1.
\<close>

theorem comparison_runs_differ:
  "cell13 demo_sklearn demo_text_lib demo_comments
     \<noteq> comparison_run Predict_proba (LinearSVC 1.0 ''squared_hinge'' 1000 0.0001 0)
          demo_sklearn demo_text_lib demo_comments
   \<and> cell11 demo_sklearn demo_text_lib demo_comments
     \<noteq> comparison_run Predict (LogisticRegression ''l2'' False)
          demo_sklearn demo_text_lib demo_comments"
proof
  show "cell13 demo_sklearn demo_text_lib demo_comments
     \<noteq> comparison_run Predict_proba (LinearSVC 1.0 ''squared_hinge'' 1000 0.0001 0)
          demo_sklearn demo_text_lib demo_comments"
    using demo_cell13_auc unfolding demo_proba_run_svc by auto
next
  show "cell11 demo_sklearn demo_text_lib demo_comments
     \<noteq> comparison_run Predict (LogisticRegression ''l2'' False)
          demo_sklearn demo_text_lib demo_comments"
  proof
    assume "cell11 demo_sklearn demo_text_lib demo_comments
      = comparison_run Predict (LogisticRegression ''l2'' False)
          demo_sklearn demo_text_lib demo_comments"
    then have "map_sum id auc (cell11 demo_sklearn demo_text_lib demo_comments)
      = map_sum id auc (comparison_run Predict (LogisticRegression ''l2'' False)
          demo_sklearn demo_text_lib demo_comments)"
      by simp
    then show False
      by (simp add: demo_cell11_auc demo_labels_auc)
  qed
qed

end
